theory Spec2Isabelle
  imports Complex_Main "HOL-Library.AList" "HOL-Library.Multiset"
begin

section \<open>The experiment module (src/src/experiment.py)\<close>

text \<open>
  A shallow embedding of the class \<open>Experiment\<close>. Methods that mutate the object take
  the object and return it updated, together with the exception they raised, if any:
  several methods raise in the middle of a loop that has already written to the
  object, so the state after a raise is part of the model.

  The collaborators of the module are not part of it and are parameters:
  \<^item> the classes \<open>System\<close>, \<open>Disturbance\<close>, \<open>Observable\<close> and \<open>Controller\<close> are the
    type variables \<open>'s\<close>, \<open>'d\<close>, \<open>'o\<close> and \<open>'c\<close>; disturbances and observables carry
    their natural total order (the class \<open>linorder\<close>), observables their string form
    (a function \<open>'o \<Rightarrow> string\<close>);
  \<^item> \<open>numpy.format_float_positional\<close> is a function \<open>real \<Rightarrow> string\<close>;
  \<^item> the clock read by \<open>time.localtime()\<close> is a value of the record \<open>tm\<close>;
  \<^item> the simulator behind \<open>sys.ram\<close> is a record of functions on a state \<open>'w\<close>.
  Python floats are modelled by \<open>real\<close>: the module only compares them
  (\<open>horizon <= 0\<close>, \<open>vmin < v < vmax\<close>, \<open>tk > window\<close>), which is exact on every
  float that is a number. Strings are \<open>string\<close>; \<open>len\<close> is \<open>length\<close>.
\<close>

subsection \<open>Exceptions and arguments\<close>

datatype error =
    RuntimeError string   \<comment> \<open>raised by the module itself, with its message\<close>
  | ValueError string     \<comment> \<open>raised by a builtin (\<open>max\<close> of an empty sequence)\<close>
  | ForeignError string   \<comment> \<open>anything raised by a collaborator\<close>

text \<open>
  An argument that is checked with \<open>isinstance\<close>: either an instance of the expected
  class, or some other object, of which only the string form (used in the error
  message) matters.
\<close>

datatype 'a arg = Inst 'a | Foreign string

fun is_Inst :: "'a arg \<Rightarrow> bool" where
  "is_Inst (Inst x) = True"
| "is_Inst (Foreign s) = False"

fun the_Inst :: "'a arg \<Rightarrow> 'a option" where
  "the_Inst (Inst x) = Some x"
| "the_Inst (Foreign s) = None"

text \<open>A setting value: \<open>Union[tuple, str, float]\<close>.\<close>

datatype val = Num real | Tup "real list" | Str string

datatype Randomization = Randomization (rand_description: string)

record 'c Controller =
  has_overrides_OLTCs :: bool   \<comment> \<open>\<open>hasattr(con, "overrides_OLTCs")\<close>\<close>
  has_get_actions :: bool       \<comment> \<open>\<open>hasattr(con, "get_actions")\<close>\<close>
  controller_str :: string      \<comment> \<open>\<open>str(con)\<close>, used in the error messages\<close>
  controller_body :: 'c

subsection \<open>Python builtins used by the module\<close>

text \<open>\<open>str.ljust(width)\<close>: pad with spaces on the right, never truncate.\<close>

definition ljust :: "nat \<Rightarrow> string \<Rightarrow> string" where
  "ljust width s = s @ replicate (width - length s) (CHR '' '')"

text \<open>\<open>sep.join(parts)\<close>.\<close>

fun join :: "string \<Rightarrow> string list \<Rightarrow> string" where
  "join sep [] = []"
| "join sep [x] = x"
| "join sep (x # y # ys) = x @ sep @ join sep (y # ys)"

text \<open>\<open>max\<close> of a sequence of lengths; it raises \<open>ValueError\<close> on an empty one.\<close>

fun py_max :: "nat list \<Rightarrow> error + nat" where
  "py_max [] = Inl (ValueError ''max() arg is an empty sequence'')"
| "py_max (x # xs) = Inr (fold max xs x)"

text \<open>\<open>str\<close> of a non-negative and of an arbitrary integer.\<close>

definition digit_char :: "nat \<Rightarrow> char" where
  "digit_char d = char_of (48 + d)"

fun str_nat :: "nat \<Rightarrow> string" where
  "str_nat n = (if n < 10 then [digit_char n] else str_nat (n div 10) @ [digit_char (n mod 10)])"

declare str_nat.simps [simp del]


text \<open>
  \<open>bisect.insort(a, x)\<close> is \<open>a.insert(bisect.bisect_right(a, x), x)\<close>; the search is
  the standard library's loop
  \<^verbatim>\<open>
  while lo < hi:
      mid = (lo + hi) // 2
      if x < a[mid]: hi = mid
      else: lo = mid + 1
  return lo
  \<close>
  started at \<open>lo = 0\<close>, \<open>hi = len(a)\<close>, where every \<open>a[mid]\<close> is in range.
\<close>

function bisect_right :: "'a::linorder list \<Rightarrow> 'a \<Rightarrow> nat \<Rightarrow> nat \<Rightarrow> nat" where
  "bisect_right a x lo hi =
     (if lo < hi then
        (let mid = (lo + hi) div 2 in
         if x < a ! mid then bisect_right a x lo mid else bisect_right a x (mid + 1) hi)
      else lo)"
  by pat_completeness auto
termination
  by (relation "measure (\<lambda>(a, x, lo, hi). hi - lo)") auto

declare bisect_right.simps [simp del]

definition bisect_insort :: "'a::linorder list \<Rightarrow> 'a \<Rightarrow> 'a list" where
  "bisect_insort a x = (let i = bisect_right a x 0 (length a) in take i a @ x # drop i a)"

subsection \<open>The object\<close>

record ('s, 'd, 'o, 'c) Experiment =
  name :: string
  DLL_dir :: string
  repetitions :: int
  must_document :: bool
  description :: string
  systems :: "(string \<times> 's) list"
  controllers :: "(string \<times> 'c Controller list) list"
  disturbances :: "(string \<times> 'd list) list"
  observables :: "'o list"
  randomizations :: "(string \<times> Randomization) list"
  settings :: "(string \<times> val) list"
  solver_settings :: "(string \<times> val) list"
  warning_voltages :: "real \<times> real"
  error_voltages :: "real \<times> real"
  disturbance_window :: real
  horizon :: real
  pyramses_step :: real
  current_repetition :: int

text \<open>
  The two dictionaries are association lists in insertion order, which is the order
  \<open>dict.items()\<close> iterates in; \<open>d[k] = v\<close> is \<^const>\<open>AList.update\<close>: it replaces the
  value of a key that is present, in place, and appends a new key at the end.
\<close>

definition setting_names :: "string list" where
  "setting_names =
     [''PLOT_STEP'', ''GP_REFRESH_RATE'', ''DISP_PROF'', ''T_LOAD_REST'', ''OMEGA_REF'',
      ''S_BASE'', ''NEWTON_TOLER'', ''FIN_DIFFER'', ''FULL_UPDATE'', ''SKIP_CONV'',
      ''LATENCY'', ''SCHEME'', ''NB_THREADS'', ''SPARSE_SOLVER'', ''OMP'', ''NET_FREQ_UPD'']"

definition solver_setting_names :: "string list" where
  "solver_setting_names = [''disc_method'', ''max_h'', ''min_h'', ''latency'', ''upd_over'']"

text \<open>The assignments of \<open>__init__\<close>, after its three checks.\<close>

definition fresh :: "string \<Rightarrow> string \<Rightarrow> int \<Rightarrow> bool \<Rightarrow> ('s, 'd, 'o, 'c) Experiment" where
  "fresh nm dll reps doc =
     \<lparr> name = nm, DLL_dir = dll, repetitions = reps, must_document = doc,
       description = ''No description was provided.'',
       systems = [], controllers = [], disturbances = [], observables = [],
       randomizations = [(''Not random'', Randomization ''Not random'')],
       settings =
         [(''PLOT_STEP'', Num (1 / 1000)),
          (''GP_REFRESH_RATE'', Num 1),
          (''DISP_PROF'', Str ''T''),
          (''T_LOAD_REST'', Num (5 / 1000)),
          (''OMEGA_REF'', Str ''COI''),
          (''S_BASE'', Num 100),
          (''NEWTON_TOLER'', Tup [1 / 1000, 1 / 1000, 1 / 10000]),
          (''FIN_DIFFER'', Tup [1 / 100000, 1 / 100000]),
          (''FULL_UPDATE'', Str ''T''),
          (''SKIP_CONV'', Str ''F''),
          (''SCHEME'', Str ''DE''),
          (''NB_THREADS'', Num 2),
          (''SPARSE_SOLVER'', Str ''KLU'')],
       solver_settings =
         [(''disc_method'', Str ''BD''),
          (''max_h'', Num (1 / 1000)),
          (''min_h'', Num (1 / 1000)),
          (''latency'', Num 0),
          (''upd_over'', Str ''ABL'')],
       warning_voltages = (85 / 100, 1),
       error_voltages = (7 / 10, 12 / 10),
       disturbance_window = 5,
       horizon = 200,
       pyramses_step = 20 / 1000,
       current_repetition = 1 \<rparr>"


subsection \<open>Methods that change the object\<close>

type_synonym ('s, 'd, 'o, 'c) result = "error option \<times> ('s, 'd, 'o, 'c) Experiment"

definition describe :: "string \<Rightarrow> ('s, 'd, 'o, 'c) Experiment \<Rightarrow> ('s, 'd, 'o, 'c) result" where
  "describe descr e =
     (if length descr > 100 then
        (Some (RuntimeError ''Description should have no more than 100 chars''), e)
      else (None, e\<lparr>description := descr\<rparr>))"

text \<open>\<open>copy.deepcopy\<close> is the identity on values.\<close>

definition add_system ::
  "string \<Rightarrow> 's arg \<Rightarrow> ('s, 'd, 'o, 'c) Experiment \<Rightarrow> ('s, 'd, 'o, 'c) result" where
  "add_system descr system e =
     (if length descr > 10 then
        (Some (RuntimeError ''Description should have no more than 10 characters.''), e)
      else case system of
        Foreign s \<Rightarrow>
          (Some (RuntimeError (''System '' @ s @ '' is not an instance of the System class.'')), e)
      | Inst sys \<Rightarrow> (None, e\<lparr>systems := systems e @ [(descr, sys)]\<rparr>))"

text \<open>The loop \<open>for dist in disturbances: if not isinstance(...): raise\<close>.\<close>

fun check_disturbances :: "'d arg list \<Rightarrow> error option" where
  "check_disturbances [] = None"
| "check_disturbances (Foreign s # rest) =
     Some (RuntimeError (''Disturbance '' @ s @ '' is not an instance of the Disturbance class.''))"
| "check_disturbances (Inst d # rest) = check_disturbances rest"

text \<open>
  \<open>sorted(list(disturbances))\<close> is \<^const>\<open>sort\<close>: a stable sort by the natural order.
  The arguments have all passed the check when it is reached.
\<close>

definition add_disturbances ::
  "string \<Rightarrow> ('d::linorder) arg list \<Rightarrow> ('s, 'd, 'o, 'c) Experiment \<Rightarrow> ('s, 'd, 'o, 'c) result" where
  "add_disturbances descr dists e =
     (if length descr > 10 then
        (Some (RuntimeError ''Description should have no more than 10 characters.''), e)
      else case check_disturbances dists of
        Some err \<Rightarrow> (Some err, e)
      | None \<Rightarrow>
          (let element = (descr, sort (List.map_filter the_Inst dists))
           in (None, e\<lparr>disturbances := disturbances e @ [element]\<rparr>)))"

text \<open>Here the check and the insertion are in the same loop.\<close>

fun add_observables ::
  "('o::linorder) arg list \<Rightarrow> ('s, 'd, 'o, 'c) Experiment \<Rightarrow> ('s, 'd, 'o, 'c) result" where
  "add_observables [] e = (None, e)"
| "add_observables (Foreign s # rest) e =
     (Some (RuntimeError (''Observable '' @ s @ '' is not an instance of the Observable class.'')), e)"
| "add_observables (Inst obs # rest) e =
     add_observables rest (e\<lparr>observables := bisect_insort (observables e) obs\<rparr>)"

fun check_controllers :: "'c Controller arg list \<Rightarrow> error option" where
  "check_controllers [] = None"
| "check_controllers (Foreign s # rest) =
     Some (RuntimeError (''Controller '' @ s @ '' is not an instance of the Controller class.''))"
| "check_controllers (Inst con # rest) =
     (if \<not> has_overrides_OLTCs con then
        Some (RuntimeError
          (''Controller '' @ controller_str con @ '' does not have an overrides_OLTCs attribute.''))
      else if \<not> has_get_actions con then
        Some (RuntimeError
          (''Controller '' @ controller_str con @ '' does not have a get_actions method.''))
      else check_controllers rest)"

definition add_controllers ::
  "string \<Rightarrow> 'c Controller arg list \<Rightarrow> ('s, 'd, 'o, 'c) Experiment \<Rightarrow> ('s, 'd, 'o, 'c) result" where
  "add_controllers descr cons e =
     (if length descr > 10 then
        (Some (RuntimeError ''Description should have no more than 10 characters.''), e)
      else case check_controllers cons of
        Some err \<Rightarrow> (Some err, e)
      | None \<Rightarrow>
          (let element = (descr, List.map_filter the_Inst cons)
           in (None, e\<lparr>controllers := controllers e @ [element]\<rparr>)))"

text \<open>Three methods whose body is a docstring only.\<close>

definition add_randomization :: "('s, 'd, 'o, 'c) Experiment \<Rightarrow> ('s, 'd, 'o, 'c) result" where
  "add_randomization e = (None, e)"

definition add_metrics :: "('s, 'd, 'o, 'c) Experiment \<Rightarrow> ('s, 'd, 'o, 'c) result" where
  "add_metrics e = (None, e)"

definition add_visualization :: "('s, 'd, 'o, 'c) Experiment \<Rightarrow> ('s, 'd, 'o, 'c) result" where
  "add_visualization e = (None, e)"

text \<open>
  \<open>for setting, value in settings_dict.items()\<close>: the argument is the list of the
  dictionary's items, in its iteration order (its keys are distinct).
\<close>

fun set_RAMSES_settings ::
  "(string \<times> val) list \<Rightarrow> ('s, 'd, 'o, 'c) Experiment \<Rightarrow> ('s, 'd, 'o, 'c) result" where
  "set_RAMSES_settings [] e = (None, e)"
| "set_RAMSES_settings ((setting, v) # rest) e =
     (if setting \<notin> set setting_names then
        (Some (RuntimeError (''Unknown setting '' @ setting @ ''.'')), e)
      else set_RAMSES_settings rest (e\<lparr>settings := AList.update setting v (settings e)\<rparr>))"

fun set_solver_settings ::
  "(string \<times> val) list \<Rightarrow> ('s, 'd, 'o, 'c) Experiment \<Rightarrow> ('s, 'd, 'o, 'c) result" where
  "set_solver_settings [] e = (None, e)"
| "set_solver_settings ((setting, v) # rest) e =
     (if setting \<notin> set solver_setting_names then
        (Some (RuntimeError (''Unknown setting '' @ setting @ ''.'')), e)
      else set_solver_settings rest
             (e\<lparr>solver_settings := AList.update setting v (solver_settings e)\<rparr>))"

definition set_solver_and_horizon ::
  "(string \<times> val) list \<Rightarrow> real \<Rightarrow> ('s, 'd, 'o, 'c) Experiment \<Rightarrow> ('s, 'd, 'o, 'c) result" where
  "set_solver_and_horizon solver_settings_dict hor e =
     (if hor \<le> 0 then (Some (RuntimeError ''Horizon must be positive.''), e)
      else set_solver_settings solver_settings_dict (e\<lparr>horizon := hor\<rparr>))"

text \<open>
  A caller's session with the object: a sequence of method calls, each of which may
  raise; the caller catches the exception and goes on with the same object.
\<close>

datatype ('s, 'd, 'o, 'c) method_call =
    Describe string
  | Add_system string "'s arg"
  | Add_disturbances string "'d arg list"
  | Add_observables "'o arg list"
  | Add_controllers string "'c Controller arg list"
  | Add_randomization
  | Add_metrics
  | Add_visualization
  | Set_RAMSES_settings "(string \<times> val) list"
  | Set_solver_and_horizon "(string \<times> val) list" real

fun call ::
  "('s, 'd::linorder, 'o::linorder, 'c) method_call \<Rightarrow> ('s, 'd, 'o, 'c) Experiment
     \<Rightarrow> ('s, 'd, 'o, 'c) result" where
  "call (Describe descr) e = describe descr e"
| "call (Add_system descr sys) e = add_system descr sys e"
| "call (Add_disturbances descr ds) e = add_disturbances descr ds e"
| "call (Add_observables os) e = add_observables os e"
| "call (Add_controllers descr cs) e = add_controllers descr cs e"
| "call Add_randomization e = add_randomization e"
| "call Add_metrics e = add_metrics e"
| "call Add_visualization e = add_visualization e"
| "call (Set_RAMSES_settings d) e = set_RAMSES_settings d e"
| "call (Set_solver_and_horizon d hor) e = set_solver_and_horizon d hor e"

definition calls ::
  "('s, 'd::linorder, 'o::linorder, 'c) method_call list \<Rightarrow> ('s, 'd, 'o, 'c) Experiment
     \<Rightarrow> ('s, 'd, 'o, 'c) Experiment" where
  "calls cs e = fold (\<lambda>c e'. snd (call c e')) cs e"

subsection \<open>Methods that read the object\<close>






text \<open>
  The nested function \<open>val2str\<close> of \<open>get_settings_str\<close>, in the order of its tests:
  a tuple, then anything that is not a string, then a string.
\<close>

fun val2str :: "(real \<Rightarrow> string) \<Rightarrow> val \<Rightarrow> string" where
  "val2str format_float_positional (Tup vals) = join '' '' (map format_float_positional vals)"
| "val2str format_float_positional (Num v) = format_float_positional v"
| "val2str format_float_positional (Str s) = s"

definition get_settings_str ::
  "(real \<Rightarrow> string) \<Rightarrow> ('s, 'd, 'o, 'c) Experiment \<Rightarrow> error + string" where
  "get_settings_str format_float_positional e =
     (let end_sep = 1; end_char = '';'' in
      case py_max (map (\<lambda>(s, v). length s) (settings e)) of
        Inl err \<Rightarrow> Inl err
      | Inr widest_name \<Rightarrow>
     (case py_max (map (\<lambda>(s, v). length (val2str format_float_positional v)) (settings e)) of
        Inl err \<Rightarrow> Inl err
      | Inr widest_val \<Rightarrow>
          (let setting_width = widest_name + 1;
               val_width = widest_val + end_sep
           in Inr (foldl
                (\<lambda>text (setting, v).
                   text @ ''$'' @ ljust setting_width setting @
                   ljust val_width (val2str format_float_positional v) @
                   end_char @ ''\<newline>'')
                ''# Simulation settings\<newline>\<newline>''
                (settings e)))))"

text \<open>
  \<open>sorted(list(set(self.observables)))\<close>: \<open>set\<close> keeps one of every group of equal
  elements (\<^const>\<open>remdups\<close>), in an order that \<open>sorted\<close> then replaces by the natural one.
\<close>

definition get_observables_str ::
  "('o::linorder \<Rightarrow> string) \<Rightarrow> ('s, 'd, 'o, 'c) Experiment \<Rightarrow> string" where
  "get_observables_str obs_str e =
     concat (map (\<lambda>obs. obs_str obs @ ''\<newline>'') (sort (remdups (observables e))))"



subsection \<open>The time loop of \<open>run\<close>\<close>

text \<open>
  The simulator and the system's own updates, on a state \<open>'w\<close> that holds the system
  and the simulation: a query either answers or raises, a command returns the new state
  and the exception it raised, if any.
\<close>

record 'w Simulator =
  getBusVolt :: "'w \<Rightarrow> error + real list"
  contSim :: "real \<Rightarrow> 'w \<Rightarrow> error option \<times> 'w"
  getLastErr :: "'w \<Rightarrow> string"
  update_detectors :: "'w \<Rightarrow> error option \<times> 'w"
  follow_controllers :: "'w \<Rightarrow> error option \<times> 'w"
  send_disturbances_until :: "real \<Rightarrow> 'w \<Rightarrow> error option \<times> 'w"

text \<open>The state of the loop, with the times that \<open>contSim\<close> has been called with.\<close>

record 'w run_state =
  world :: 'w
  advanced :: "real list"

text \<open>
  How the loop ends: the sequence is exhausted, the \<open>break\<close> of the voltage test, the
  \<open>break\<close> of the handler (with the text it prints), or an exception of one of the
  three calls after the \<open>try\<close> statement, which leaves \<open>run\<close>.
\<close>

datatype outcome =
    Completed
  | AbortedOnDivergence
  | AbortedOnEngineError string
  | Propagated error

text \<open>
  \<open>for tk in time_values: ...\<close> (the progress display is left out). The step times
  are the floats of \<open>np.arange(0, self.horizon, h)\<close>, computed by NumPy; the loop takes
  them as its list argument, whatever they are.
\<close>

fun run_loop ::
  "'w Simulator \<Rightarrow> ('s, 'd, 'o, 'c) Experiment \<Rightarrow> real list \<Rightarrow> 'w run_state
     \<Rightarrow> outcome \<times> 'w run_state" where
  "run_loop sim e [] s = (Completed, s)"
| "run_loop sim e (tk # rest) s =
     (let (vmin, vmax) = error_voltages e; h = pyramses_step e in
      case getBusVolt sim (world s) of
        Inl err \<Rightarrow> (AbortedOnEngineError (getLastErr sim (world s)), s)
      | Inr voltages \<Rightarrow>
          if tk > disturbance_window e \<and> \<not> list_all (\<lambda>v. vmin < v \<and> v < vmax) voltages
          then (AbortedOnDivergence, s)
          else
            (case contSim sim tk (world s) of
               (Some err, w1) \<Rightarrow>
                 (AbortedOnEngineError (getLastErr sim w1),
                  \<lparr>world = w1, advanced = advanced s @ [tk]\<rparr>)
             | (None, w1) \<Rightarrow>
            (case update_detectors sim w1 of
               (Some err, w2) \<Rightarrow> (Propagated err, \<lparr>world = w2, advanced = advanced s @ [tk]\<rparr>)
             | (None, w2) \<Rightarrow>
            (case follow_controllers sim w2 of
               (Some err, w3) \<Rightarrow> (Propagated err, \<lparr>world = w3, advanced = advanced s @ [tk]\<rparr>)
             | (None, w3) \<Rightarrow>
            (case send_disturbances_until sim (tk + h) w3 of
               (Some err, w4) \<Rightarrow> (Propagated err, \<lparr>world = w4, advanced = advanced s @ [tk]\<rparr>)
             | (None, w4) \<Rightarrow>
                 run_loop sim e rest \<lparr>world = w4, advanced = advanced s @ [tk]\<rparr>)))))"

subsection \<open>A positional renderer for evaluation\<close>

text \<open>
  One concrete renderer, used to evaluate the serializer on concrete inputs only; the
  theorems below are about every renderer. On a number with a short decimal expansion
  it prints what NumPy prints for the float of that literal: the integer part, a dot,
  and the fractional digits with no trailing zero (\<open>100\<close> is \<open>"100."\<close>, \<open>0.001\<close> is
  \<open>"0.001"\<close>).
\<close>

fun frac_digits :: "nat \<Rightarrow> real \<Rightarrow> string" where
  "frac_digits 0 r = []"
| "frac_digits (Suc n) r =
     (if r = 0 then []
      else (let d = nat \<lfloor>r * 10\<rfloor> in digit_char d # frac_digits n (r * 10 - real d)))"

definition decimal_positional :: "real \<Rightarrow> string" where
  "decimal_positional x =
     (if x < 0 then ''-'' else []) @ str_nat (nat \<lfloor>\<bar>x\<bar>\<rfloor>) @ ''.'' @ frac_digits 17 (frac \<bar>x\<bar>)"

subsection \<open>Notions used to state the properties\<close>

text \<open>
  The arguments of a call that are accepted before the first one that fails the
  \<open>isinstance\<close> check, and what a sequence of calls of \<open>add_observables\<close> has
  inserted.
\<close>

definition accepted :: "'a arg list \<Rightarrow> 'a list" where
  "accepted args = List.map_filter the_Inst (takeWhile is_Inst args)"

definition added :: "'a arg list list \<Rightarrow> 'a set" where
  "added css = (\<Union>args \<in> set css. set (accepted args))"

definition add_observables_calls ::
  "('o::linorder) arg list list \<Rightarrow> ('s, 'd, 'o, 'c) Experiment \<Rightarrow> ('s, 'd, 'o, 'c) Experiment" where
  "add_observables_calls css e = fold (\<lambda>args e'. snd (add_observables args e')) css e"

text \<open>
  The specification's observables text: the serialization of a set of observables,
  deduplicated and sorted, one per line.
\<close>

definition observables_text :: "('o::linorder \<Rightarrow> string) \<Rightarrow> 'o set \<Rightarrow> string" where
  "observables_text obs_str S =
     concat (map (\<lambda>obs. obs_str obs @ ''\<newline>'') (sorted_list_of_set S))"

text \<open>
  A dictionary after the assignments \<open>d[k] = v\<close> for the given items, in their order.
\<close>

definition overwrite :: "('k \<times> 'v) list \<Rightarrow> ('k \<times> 'v) list \<Rightarrow> ('k \<times> 'v) list" where
  "overwrite items al = fold (\<lambda>(k, v). AList.update k v) items al"

text \<open>
  A sequence of calls of \<open>add_disturbances\<close>, each with its tag and arguments.
\<close>

definition add_disturbances_calls ::
  "(string \<times> ('d::linorder) arg list) list \<Rightarrow> ('s, 'd, 'o, 'c) Experiment
     \<Rightarrow> ('s, 'd, 'o, 'c) Experiment" where
  "add_disturbances_calls batches e =
     fold (\<lambda>(descr, dists) e'. snd (add_disturbances descr dists e')) batches e"

text \<open>
  A simulator for evaluation: its state counts the calls of \<open>contSim\<close>, and the second
  of its two buses drops to 0.5 after two steps.
\<close>

definition counting_sim :: "nat Simulator" where
  "counting_sim =
     \<lparr> getBusVolt = (\<lambda>w. Inr [1, if w < 2 then 1 else 1 / 2]),
       contSim = (\<lambda>t w. (None, Suc w)),
       getLastErr = (\<lambda>w. []),
       update_detectors = (\<lambda>w. (None, w)),
       follow_controllers = (\<lambda>w. (None, w)),
       send_disturbances_until = (\<lambda>t w. (None, w)) \<rparr>"

text \<open>
  The layout of the settings text: the widest name and the widest formatted value of
  the settings map, and the line of one setting for given column widths. A string is
  free of exponent markers if it has neither \<open>e\<close> nor \<open>E\<close>; the numbers of a setting
  value are its components.
\<close>

definition widest_name :: "('s, 'd, 'o, 'c) Experiment \<Rightarrow> nat" where
  "widest_name e = Max (set (map (\<lambda>(s, v). length s) (settings e)))"

definition widest_value :: "(real \<Rightarrow> string) \<Rightarrow> ('s, 'd, 'o, 'c) Experiment \<Rightarrow> nat" where
  "widest_value fmt e = Max (set (map (\<lambda>(s, v). length (val2str fmt v)) (settings e)))"

definition settings_row :: "nat \<Rightarrow> nat \<Rightarrow> (real \<Rightarrow> string) \<Rightarrow> string \<times> val \<Rightarrow> string" where
  "settings_row name_width val_width fmt =
     (\<lambda>(setting, v). ''$'' @ ljust name_width setting @ ljust val_width (val2str fmt v)
                        @ '';'' @ ''\<newline>'')"

definition exponent_free :: "string \<Rightarrow> bool" where
  "exponent_free s = (CHR ''e'' \<notin> set s \<and> CHR ''E'' \<notin> set s)"

fun numbers_of :: "val \<Rightarrow> real list" where
  "numbers_of (Num x) = [x]"
| "numbers_of (Tup xs) = xs"
| "numbers_of (Str s) = []"

fun is_numeric :: "val \<Rightarrow> bool" where
  "is_numeric (Num x) = True"
| "is_numeric (Tup xs) = True"
| "is_numeric (Str s) = False"

section \<open>Properties\<close>

subsection \<open>The observable registry\<close>

lemma accepted_simps [simp]:
  "accepted [] = []"
  "accepted (Foreign s # rest) = []"
  "accepted (Inst x # rest) = x # accepted rest"
  by (simp_all add: accepted_def List.map_filter_simps)

lemma set_bisect_insort [simp]: "set (bisect_insort a x) = insert x (set a)"
proof -
  have "set (take i a) \<union> set (drop i a) = set a" for i
    by (metis append_take_drop_id set_append)
  then show ?thesis
    by (auto simp: bisect_insort_def Let_def)
qed

lemma length_bisect_insort [simp]: "length (bisect_insort a x) = Suc (length a)"
  by (simp add: bisect_insort_def Let_def)

lemma mset_bisect_insort [simp]: "mset (bisect_insort a x) = add_mset x (mset a)"
proof -
  have "mset (take i a) + mset (drop i a) = mset a" for i
    by (metis append_take_drop_id mset_append)
  then show ?thesis
    by (simp add: bisect_insort_def Let_def)
qed

lemma add_observables_state:
  "snd (add_observables args e)
     = e\<lparr>observables := fold (\<lambda>x a. bisect_insort a x) (accepted args) (observables e)\<rparr>"
  by (induction args e rule: add_observables.induct) simp_all

lemma set_fold_bisect_insort:
  "set (fold (\<lambda>x a. bisect_insort a x) xs a) = set a \<union> set xs"
  by (induction xs arbitrary: a) auto

lemma observables_add_observables:
  "set (observables (snd (add_observables args e))) = set (observables e) \<union> set (accepted args)"
  by (simp add: add_observables_state set_fold_bisect_insort)

lemma observables_add_observables_calls:
  "set (observables (add_observables_calls css e)) = set (observables e) \<union> added css"
  by (induction css arbitrary: e)
     (auto simp: add_observables_calls_def added_def observables_add_observables)

lemma get_observables_str_set:
  "get_observables_str obs_str e = observables_text obs_str (set (observables e))"
  by (simp add: get_observables_str_def observables_text_def sorted_list_of_set_sort_remdups)

text \<open>
  Claim C1. After any sequence of calls of \<open>add_observables\<close>, in any order and with
  any duplicates, \<open>get_observables_str\<close> returns the serialization of the deduplicated,
  sorted set of the observables that were in the registry or have been added, one per
  line in the observable's string form; so two sequences of calls that add equal sets
  give the same text.
\<close>

theorem observables_text_order_independent:
  "get_observables_str obs_str (add_observables_calls css e)
     = observables_text obs_str (set (observables e) \<union> added css)
   \<and> (added css' = added css \<longrightarrow>
        get_observables_str obs_str (add_observables_calls css' e)
          = get_observables_str obs_str (add_observables_calls css e))"
  by (simp add: get_observables_str_set observables_add_observables_calls)

theorem observables_text_order_independent_witness:
  "get_observables_str str_nat
     (add_observables_calls [[Inst 3, Inst 1, Inst 3], [Inst 2, Foreign ''x'', Inst 7]]
        (fresh ''exp'' ''dll'' 1 False :: (unit, nat, nat, unit) Experiment))
     = ''1\<newline>2\<newline>3\<newline>''
   \<and> get_observables_str str_nat
     (add_observables_calls [[Inst 2, Inst 1], [Inst 3]]
        (fresh ''exp'' ''dll'' 1 False :: (unit, nat, nat, unit) Experiment))
     = ''1\<newline>2\<newline>3\<newline>''"
proof -
  let ?e = "fresh ''exp'' ''dll'' 1 False :: (unit, nat, nat, unit) Experiment"
  let ?css = "[[Inst 3, Inst 1, Inst 3], [Inst 2, Foreign ''x'', Inst 7]] :: nat arg list list"
  let ?css' = "[[Inst 2, Inst 1], [Inst 3]] :: nat arg list list"
  note th = observables_text_order_independent [of str_nat ?css ?e ?css']
  have a: "set (observables ?e) \<union> added ?css = {1, 2, 3}"
    by (auto simp: added_def fresh_def)
  have b: "added ?css' = added ?css"
    by (auto simp: added_def)
  have c: "observables_text str_nat {1, 2, 3} = ''1\<newline>2\<newline>3\<newline>''"
    by code_simp
  have 1: "get_observables_str str_nat (add_observables_calls ?css ?e)
             = ''1\<newline>2\<newline>3\<newline>''"
    using conjunct1 [OF th] by (simp only: a c)
  have 2: "get_observables_str str_nat (add_observables_calls ?css' ?e)
             = get_observables_str str_nat (add_observables_calls ?css ?e)"
    using conjunct2 [OF th] b by (rule mp)
  show ?thesis
    using 1 2 by (simp only: simp_thms)
qed

text \<open>
  Claim C10. \<open>add_observables\<close> is not atomic: when an argument fails the type check,
  the call raises, and every argument before it has already been inserted into the
  registry and is still there after the error.
\<close>

theorem add_observables_not_atomic:
  "add_observables (map Inst pre @ Foreign s # rest) e
     = (Some (RuntimeError (''Observable '' @ s @ '' is not an instance of the Observable class.'')),
        e\<lparr>observables := fold (\<lambda>x a. bisect_insort a x) pre (observables e)\<rparr>)
   \<and> set pre \<subseteq> set (observables (snd (add_observables (map Inst pre @ Foreign s # rest) e)))"
proof -
  have "add_observables (map Inst pre @ Foreign s # rest) e
     = (Some (RuntimeError (''Observable '' @ s @ '' is not an instance of the Observable class.'')),
        e\<lparr>observables := fold (\<lambda>x a. bisect_insort a x) pre (observables e)\<rparr>)"
    by (induction pre arbitrary: e) simp_all
  then show ?thesis
    by (simp add: set_fold_bisect_insort)
qed

subsection \<open>The configuration registry\<close>

lemma overwrite_simps [simp]:
  "overwrite [] al = al"
  "overwrite ((k, v) # items) al = overwrite items (AList.update k v al)"
  by (simp_all add: overwrite_def)

lemma map_of_overwrite_rev: "map_of (overwrite items al) = map_of al ++ map_of (rev items)"
proof (induction items arbitrary: al)
  case Nil
  then show ?case by simp
next
  case (Cons p items)
  obtain k v where p: "p = (k, v)" by (cases p)
  have "map_of (overwrite (p # items) al) = (map_of al)(k \<mapsto> v) ++ map_of (rev items)"
    by (simp only: p overwrite_simps Cons.IH update_conv')
  also have "\<dots> = map_of al ++ map_of (rev (p # items))"
    by (simp add: p)
  finally show ?case .
qed

lemma map_of_rev_distinct: "distinct (map fst items) \<Longrightarrow> map_of (rev items) = map_of items"
  by (subst map_of_inject_set) (simp_all add: rev_map [symmetric])

lemma map_of_overwrite:
  "distinct (map fst items) \<Longrightarrow> map_of (overwrite items al) = map_of al ++ map_of items"
  by (simp add: map_of_overwrite_rev map_of_rev_distinct)

lemma distinct_overwrite:
  "distinct (map fst al) \<Longrightarrow> distinct (map fst (overwrite items al))"
  by (induction items arbitrary: al) (auto simp: distinct_update)

lemma set_RAMSES_settings_recognized:
  "fst ` set items \<subseteq> set setting_names \<Longrightarrow>
   set_RAMSES_settings items e = (None, e\<lparr>settings := overwrite items (settings e)\<rparr>)"
  by (induction items e rule: set_RAMSES_settings.induct) simp_all

lemma set_RAMSES_settings_unrecognized:
  "fst ` set pre \<subseteq> set setting_names \<Longrightarrow> k \<notin> set setting_names \<Longrightarrow>
   set_RAMSES_settings (pre @ (k, v) # rest) e
     = (Some (RuntimeError (''Unknown setting '' @ k @ ''.'')),
        e\<lparr>settings := overwrite pre (settings e)\<rparr>)"
  by (induction pre e rule: set_RAMSES_settings.induct) simp_all

lemma set_solver_settings_recognized:
  "fst ` set items \<subseteq> set solver_setting_names \<Longrightarrow>
   set_solver_settings items e = (None, e\<lparr>solver_settings := overwrite items (solver_settings e)\<rparr>)"
  by (induction items e rule: set_solver_settings.induct) simp_all

lemma set_solver_settings_unrecognized:
  "fst ` set pre \<subseteq> set solver_setting_names \<Longrightarrow> k \<notin> set solver_setting_names \<Longrightarrow>
   set_solver_settings (pre @ (k, v) # rest) e
     = (Some (RuntimeError (''Unknown setting '' @ k @ ''.'')),
        e\<lparr>solver_settings := overwrite pre (solver_settings e)\<rparr>)"
  by (induction pre e rule: set_solver_settings.induct) simp_all

text \<open>
  Claim C2, as stated, fails: a call whose second key is unrecognized raises, and the
  first key has been overwritten by then.
\<close>

theorem set_RAMSES_settings_unchanged_counterexample:
  "fst (set_RAMSES_settings [(''PLOT_STEP'', Num 1), (''BAD'', Num 2)]
          (fresh ''exp'' ''dll'' 1 False :: (unit, nat, nat, unit) Experiment))
     = Some (RuntimeError ''Unknown setting BAD.'')
   \<and> map_of (settings (snd (set_RAMSES_settings [(''PLOT_STEP'', Num 1), (''BAD'', Num 2)]
          (fresh ''exp'' ''dll'' 1 False :: (unit, nat, nat, unit) Experiment)))) ''PLOT_STEP''
       = Some (Num 1)
   \<and> map_of (settings (fresh ''exp'' ''dll'' 1 False :: (unit, nat, nat, unit) Experiment))
        ''PLOT_STEP'' = Some (Num (1 / 1000))"
  by (simp add: fresh_def setting_names_def)

text \<open>
  Claim C2, amended. If every key of the updates is recognized, \<open>set_RAMSES_settings\<close>
  returns normally and the settings map is the prior map with exactly those keys
  overwritten. If a key is not recognized, the call raises \<open>RuntimeError\<close> at the first
  such key, and the settings map is the prior map with the keys that come before it in
  the updates overwritten: it is unchanged when the unrecognized key comes first.
\<close>

theorem set_RAMSES_settings_merge:
  fixes e :: "('s, 'd, 'o, 'c) Experiment"
  shows "(distinct (map fst items) \<and> fst ` set items \<subseteq> set setting_names \<longrightarrow>
            set_RAMSES_settings items e = (None, e\<lparr>settings := overwrite items (settings e)\<rparr>)
            \<and> map_of (overwrite items (settings e)) = map_of (settings e) ++ map_of items)
       \<and> (distinct (map fst pre) \<and> fst ` set pre \<subseteq> set setting_names \<and> k \<notin> set setting_names \<longrightarrow>
            set_RAMSES_settings (pre @ (k, v) # rest) e
              = (Some (RuntimeError (''Unknown setting '' @ k @ ''.'')),
                 e\<lparr>settings := overwrite pre (settings e)\<rparr>)
            \<and> map_of (overwrite pre (settings e)) = map_of (settings e) ++ map_of pre)"
  by (simp add: set_RAMSES_settings_recognized set_RAMSES_settings_unrecognized map_of_overwrite)

text \<open>
  Claim C8, as stated, fails: with a positive horizon and an unrecognized key the call
  raises, and the stored horizon has been replaced by then.
\<close>

theorem set_solver_and_horizon_counterexample:
  "fst (set_solver_and_horizon [(''bad'', Num 1)] 50
          (fresh ''exp'' ''dll'' 1 False :: (unit, nat, nat, unit) Experiment))
     = Some (RuntimeError ''Unknown setting bad.'')
   \<and> horizon (snd (set_solver_and_horizon [(''bad'', Num 1)] 50
          (fresh ''exp'' ''dll'' 1 False :: (unit, nat, nat, unit) Experiment))) = 50
   \<and> horizon (fresh ''exp'' ''dll'' 1 False :: (unit, nat, nat, unit) Experiment) = 200"
  by (simp add: fresh_def solver_setting_names_def set_solver_and_horizon_def)

text \<open>
  Claim C8, amended. \<open>set_solver_and_horizon\<close> raises when the horizon is not positive,
  and then nothing is changed. With a positive horizon and recognized keys only, it
  returns normally, the stored horizon is the argument and exactly the given keys of
  the solver settings are overwritten. With a positive horizon and an unrecognized key,
  it raises at the first such key: the stored horizon has been replaced by the
  argument and the keys before the unrecognized one have been overwritten.
\<close>

theorem set_solver_and_horizon_merge:
  fixes e :: "('s, 'd, 'o, 'c) Experiment"
  shows "(hor \<le> 0 \<longrightarrow>
            set_solver_and_horizon items hor e = (Some (RuntimeError ''Horizon must be positive.''), e))
       \<and> (0 < hor \<and> distinct (map fst items) \<and> fst ` set items \<subseteq> set solver_setting_names \<longrightarrow>
            set_solver_and_horizon items hor e
              = (None, e\<lparr>horizon := hor,
                          solver_settings := overwrite items (solver_settings e)\<rparr>)
            \<and> map_of (overwrite items (solver_settings e)) = map_of (solver_settings e) ++ map_of items)
       \<and> (0 < hor \<and> distinct (map fst pre) \<and> fst ` set pre \<subseteq> set solver_setting_names
              \<and> k \<notin> set solver_setting_names \<longrightarrow>
            set_solver_and_horizon (pre @ (k, v) # rest) hor e
              = (Some (RuntimeError (''Unknown setting '' @ k @ ''.'')),
                 e\<lparr>horizon := hor, solver_settings := overwrite pre (solver_settings e)\<rparr>)
            \<and> map_of (overwrite pre (solver_settings e)) = map_of (solver_settings e) ++ map_of pre)"
  by (simp add: set_solver_and_horizon_def set_solver_settings_recognized
        set_solver_settings_unrecognized map_of_overwrite)


theorem set_RAMSES_settings_merge_witness:
  "distinct (map fst [(''PLOT_STEP'', Num 1), (''LATENCY'', Tup [1, 0])])
   \<and> fst ` set [(''PLOT_STEP'', Num 1), (''LATENCY'', Tup [1, 0])] \<subseteq> set setting_names
   \<and> set_RAMSES_settings [(''PLOT_STEP'', Num 1), (''LATENCY'', Tup [1, 0])]
         (fresh ''exp'' ''dll'' 1 False :: (unit, nat, nat, unit) Experiment)
       = (None, (fresh ''exp'' ''dll'' 1 False)
            \<lparr>settings := overwrite [(''PLOT_STEP'', Num 1), (''LATENCY'', Tup [1, 0])]
                (settings (fresh ''exp'' ''dll'' 1 False :: (unit, nat, nat, unit) Experiment))\<rparr>)
   \<and> ''BAD'' \<notin> set setting_names
   \<and> set_RAMSES_settings ([(''PLOT_STEP'', Num 1)] @ (''BAD'', Num 2) # [(''S_BASE'', Num 10)])
         (fresh ''exp'' ''dll'' 1 False :: (unit, nat, nat, unit) Experiment)
       = (Some (RuntimeError ''Unknown setting BAD.''), (fresh ''exp'' ''dll'' 1 False)
            \<lparr>settings := overwrite [(''PLOT_STEP'', Num 1)]
                (settings (fresh ''exp'' ''dll'' 1 False :: (unit, nat, nat, unit) Experiment))\<rparr>)"
proof -
  let ?e = "fresh ''exp'' ''dll'' 1 False :: (unit, nat, nat, unit) Experiment"
  have h1: "distinct (map fst [(''PLOT_STEP'', Num 1), (''LATENCY'', Tup [1, 0])])
            \<and> fst ` set [(''PLOT_STEP'', Num 1), (''LATENCY'', Tup [1, 0])] \<subseteq> set setting_names"
    by (simp add: setting_names_def)
  have h2: "distinct (map fst [(''PLOT_STEP'', Num 1)])
            \<and> fst ` set [(''PLOT_STEP'', Num 1)] \<subseteq> set setting_names
            \<and> ''BAD'' \<notin> set setting_names"
    by (simp add: setting_names_def)
  note th = set_RAMSES_settings_merge
    [of "[(''PLOT_STEP'', Num 1), (''LATENCY'', Tup [1, 0])]" ?e "[(''PLOT_STEP'', Num 1)]"
        "''BAD''" "Num 2" "[(''S_BASE'', Num 10)]"]
  from mp [OF conjunct1 [OF th] h1] mp [OF conjunct2 [OF th] h2] h1 h2
  show ?thesis by simp
qed

theorem set_solver_and_horizon_merge_witness:
  "set_solver_and_horizon [(''max_h'', Num 1)] 0
         (fresh ''exp'' ''dll'' 1 False :: (unit, nat, nat, unit) Experiment)
       = (Some (RuntimeError ''Horizon must be positive.''), fresh ''exp'' ''dll'' 1 False)
   \<and> set_solver_and_horizon [(''max_h'', Num 1)] 50
         (fresh ''exp'' ''dll'' 1 False :: (unit, nat, nat, unit) Experiment)
       = (None, (fresh ''exp'' ''dll'' 1 False)
            \<lparr>horizon := 50, solver_settings := overwrite [(''max_h'', Num 1)]
                (solver_settings (fresh ''exp'' ''dll'' 1 False :: (unit, nat, nat, unit) Experiment))\<rparr>)
   \<and> set_solver_and_horizon ([(''max_h'', Num 1)] @ (''bad'', Num 2) # []) 50
         (fresh ''exp'' ''dll'' 1 False :: (unit, nat, nat, unit) Experiment)
       = (Some (RuntimeError ''Unknown setting bad.''), (fresh ''exp'' ''dll'' 1 False)
            \<lparr>horizon := 50, solver_settings := overwrite [(''max_h'', Num 1)]
                (solver_settings (fresh ''exp'' ''dll'' 1 False :: (unit, nat, nat, unit) Experiment))\<rparr>)"
proof -
  let ?e = "fresh ''exp'' ''dll'' 1 False :: (unit, nat, nat, unit) Experiment"
  have h1: "(0::real) \<le> 0" by simp
  have h2: "(0::real) < 50 \<and> distinct (map fst [(''max_h'', Num 1)])
            \<and> fst ` set [(''max_h'', Num 1)] \<subseteq> set solver_setting_names"
    by (simp add: solver_setting_names_def)
  have h3: "(0::real) < 50 \<and> distinct (map fst [(''max_h'', Num 1)])
            \<and> fst ` set [(''max_h'', Num 1)] \<subseteq> set solver_setting_names
            \<and> ''bad'' \<notin> set solver_setting_names"
    by (simp add: solver_setting_names_def)
  note a = set_solver_and_horizon_merge [of 0 "[(''max_h'', Num 1)]" ?e]
  note b = set_solver_and_horizon_merge
     [of 50 "[(''max_h'', Num 1)]" ?e "[(''max_h'', Num 1)]" "''bad''" "Num 2" "[]"]
  from mp [OF conjunct1 [OF a] h1]
       mp [OF conjunct1 [OF conjunct2 [OF b]] h2]
       mp [OF conjunct2 [OF conjunct2 [OF b]] h3]
  show ?thesis by simp
qed

subsection \<open>The disturbance batches\<close>

lemma check_disturbances_Inst [simp]: "check_disturbances (map Inst ds) = None"
  by (induction ds) simp_all

lemma map_filter_the_Inst [simp]: "List.map_filter the_Inst (map Inst ds) = ds"
  by (induction ds) (simp_all add: List.map_filter_simps)

lemma add_disturbances_valid:
  "length tag \<le> 10 \<Longrightarrow>
   add_disturbances tag (map Inst ds) e
     = (None, e\<lparr>disturbances := disturbances e @ [(tag, sort ds)]\<rparr>)"
  by (simp add: add_disturbances_def)

lemma add_disturbances_calls_valid:
  "\<forall>(tag, ds) \<in> set batches. length tag \<le> 10 \<Longrightarrow>
   disturbances (add_disturbances_calls (map (\<lambda>(tag, ds). (tag, map Inst ds)) batches) e)
     = disturbances e @ map (\<lambda>(tag, ds). (tag, sort ds)) batches"
proof (induction batches arbitrary: e)
  case Nil
  then show ?case by (simp add: add_disturbances_calls_def)
next
  case (Cons b batches)
  obtain tag ds where b: "b = (tag, ds)" by (cases b)
  from Cons.prems have len: "length tag \<le> 10"
    and rest: "\<forall>(tag, ds) \<in> set batches. length tag \<le> 10"
    by (simp_all add: b)
  have "add_disturbances_calls (map (\<lambda>(tag, ds). (tag, map Inst ds)) (b # batches)) e
      = add_disturbances_calls (map (\<lambda>(tag, ds). (tag, map Inst ds)) batches)
          (e\<lparr>disturbances := disturbances e @ [(tag, sort ds)]\<rparr>)"
    by (simp add: add_disturbances_calls_def b add_disturbances_valid [OF len])
  then show ?case
    by (simp add: Cons.IH [OF rest] b)
qed

text \<open>
  Claim C5. A call \<open>add_disturbances(tag, *ds)\<close> whose arguments pass the validation
  appends exactly one batch at the end of the list of batches: the tag with \<open>ds\<close>
  sorted by the natural order (a sorted permutation of \<open>ds\<close>). After a sequence of
  such calls the list of batches is the prior list followed by the sorted batches in
  the order of the calls.
\<close>

theorem add_disturbances_sorted_batch:
  "(length tag \<le> 10 \<longrightarrow>
      add_disturbances tag (map Inst ds) e
        = (None, e\<lparr>disturbances := disturbances e @ [(tag, sort ds)]\<rparr>)
      \<and> sorted (sort ds) \<and> mset (sort ds) = mset ds)
   \<and> ((\<forall>(tag, ds) \<in> set batches. length tag \<le> 10) \<longrightarrow>
      disturbances (add_disturbances_calls (map (\<lambda>(tag, ds). (tag, map Inst ds)) batches) e)
        = disturbances e @ map (\<lambda>(tag, ds). (tag, sort ds)) batches)"
  by (simp add: add_disturbances_valid add_disturbances_calls_valid)

theorem add_disturbances_sorted_batch_witness:
  "length ''faults'' \<le> 10
   \<and> add_disturbances ''faults'' (map Inst [3, 1, 2])
        (fresh ''exp'' ''dll'' 1 False :: (unit, nat, nat, unit) Experiment)
       = (None, (fresh ''exp'' ''dll'' 1 False)\<lparr>disturbances := [(''faults'', [1, 2, 3])]\<rparr>)
   \<and> disturbances (add_disturbances_calls
        (map (\<lambda>(tag, ds). (tag, map Inst ds)) [(''second'', [2, 1]), (''first'', [9, 4, 4])])
        (fresh ''exp'' ''dll'' 1 False :: (unit, nat, nat, unit) Experiment))
       = [(''second'', [1, 2]), (''first'', [4, 4, 9])]"
proof -
  let ?e = "fresh ''exp'' ''dll'' 1 False :: (unit, nat, nat, unit) Experiment"
  note th = add_disturbances_sorted_batch
    [of "''faults''" "[3, 1, 2] :: nat list" ?e "[(''second'', [2, 1]), (''first'', [9, 4, 4])]"]
  have h1: "length ''faults'' \<le> 10" by simp
  have h2: "\<forall>(tag, ds) \<in> set [(''second'', [2, 1 :: nat]), (''first'', [9, 4, 4])]. length tag \<le> 10"
    by simp
  have s: "sort [3, 1, 2 :: nat] = [1, 2, 3]" "sort [2, 1 :: nat] = [1, 2]"
     "sort [9, 4, 4 :: nat] = [4, 4, 9]"
    by simp_all
  have d: "disturbances ?e = []" by (simp add: fresh_def)
  from mp [OF conjunct1 [OF th] h1] mp [OF conjunct2 [OF th] h2] h1
  show ?thesis by (simp add: s d)
qed

subsection \<open>The case axes and the case path\<close>

lemma randomizations_add_observables [simp]:
  "randomizations (snd (add_observables args e)) = randomizations e"
  by (simp add: add_observables_state)

lemma randomizations_set_RAMSES_settings [simp]:
  "randomizations (snd (set_RAMSES_settings items e)) = randomizations e"
  by (induction items e rule: set_RAMSES_settings.induct) simp_all

lemma randomizations_set_solver_settings [simp]:
  "randomizations (snd (set_solver_settings items e)) = randomizations e"
  by (induction items e rule: set_solver_settings.induct) simp_all




















subsection \<open>The time loop\<close>

lemma run_loop_append:
  "run_loop sim e pre s = (Completed, s') \<Longrightarrow>
   run_loop sim e (pre @ ts) s = run_loop sim e ts s'"
proof (induction pre arbitrary: s)
  case Nil
  then show ?case by simp
next
  case (Cons tk pre)
  from Cons.prems show ?case
    by (auto simp: Let_def Cons.IH split: sum.splits prod.splits option.splits if_splits)
qed

lemma run_loop_advanced:
  "run_loop sim e pre s = (Completed, s') \<Longrightarrow> advanced s' = advanced s @ pre"
proof (induction pre arbitrary: s)
  case Nil
  then show ?case by simp
next
  case (Cons tk pre)
  from Cons.prems show ?case
    by (auto simp: Let_def dest!: Cons.IH split: sum.splits prod.splits option.splits if_splits)
qed

lemma run_loop_diverged:
  assumes "tk > disturbance_window e"
      and "getBusVolt sim (world s) = Inr voltages"
      and "v \<in> set voltages"
      and "\<not> (fst (error_voltages e) < v \<and> v < snd (error_voltages e))"
  shows "run_loop sim e (tk # rest) s = (AbortedOnDivergence, s)"
proof -
  have "\<not> list_all (\<lambda>v. fst (error_voltages e) < v \<and> v < snd (error_voltages e)) voltages"
    using assms(3,4) by (auto simp: list_all_iff)
  with assms(1,2) show ?thesis
    by (simp add: Let_def split_beta)
qed

text \<open>
  Claim C7. When the loop reaches a step time \<open>tk\<close> greater than the disturbance
  window and some monitored bus voltage is outside the open error band (0.7 to 1.2 in
  a fresh experiment), it stops at that step with the divergence outcome: the state is
  the one it had on reaching \<open>tk\<close>, and \<open>contSim\<close> has been called for the earlier
  step times only, not for \<open>tk\<close> or a later time.
\<close>

theorem run_loop_stops_on_divergence:
  assumes "run_loop sim e pre s = (Completed, s')"
      and "tk > disturbance_window e"
      and "getBusVolt sim (world s') = Inr voltages"
      and "v \<in> set voltages"
      and "\<not> (fst (error_voltages e) < v \<and> v < snd (error_voltages e))"
  shows "run_loop sim e (pre @ tk # rest) s = (AbortedOnDivergence, s')
         \<and> advanced s' = advanced s @ pre"
proof -
  have "run_loop sim e (pre @ tk # rest) s = run_loop sim e (tk # rest) s'"
    by (rule run_loop_append [OF assms(1)])
  also have "\<dots> = (AbortedOnDivergence, s')"
    by (rule run_loop_diverged [OF assms(2-5)])
  finally show ?thesis
    using run_loop_advanced [OF assms(1)] by (rule conjI)
qed

theorem run_loop_stops_on_divergence_witness:
  "run_loop counting_sim (fresh ''exp'' ''dll'' 1 False :: (unit, nat, nat, unit) Experiment)
      [0, 3] \<lparr>world = 0, advanced = []\<rparr>
     = (Completed, \<lparr>world = 2, advanced = [0, 3]\<rparr>)
   \<and> 6 > disturbance_window (fresh ''exp'' ''dll'' 1 False :: (unit, nat, nat, unit) Experiment)
   \<and> getBusVolt counting_sim (world \<lparr>world = 2 :: nat, advanced = [0, 3]\<rparr>) = Inr [1, 1 / 2]
   \<and> error_voltages (fresh ''exp'' ''dll'' 1 False :: (unit, nat, nat, unit) Experiment)
       = (7 / 10, 12 / 10)
   \<and> run_loop counting_sim (fresh ''exp'' ''dll'' 1 False :: (unit, nat, nat, unit) Experiment)
      ([0, 3] @ 6 # [9]) \<lparr>world = 0, advanced = []\<rparr>
     = (AbortedOnDivergence, \<lparr>world = 2, advanced = [0, 3]\<rparr>)"
proof -
  let ?e = "fresh ''exp'' ''dll'' 1 False :: (unit, nat, nat, unit) Experiment"
  let ?s = "\<lparr>world = 0 :: nat, advanced = []\<rparr>"
  let ?s' = "\<lparr>world = 2 :: nat, advanced = [0, 3]\<rparr>"
  have h1: "run_loop counting_sim ?e [0, 3] ?s = (Completed, ?s')"
    by (simp add: counting_sim_def fresh_def numeral_2_eq_2)
  have h2: "6 > disturbance_window ?e"
    by (simp add: fresh_def)
  have h3: "getBusVolt counting_sim (world ?s') = Inr [1, 1 / 2]"
    by (simp add: counting_sim_def)
  have h4: "(1 / 2 :: real) \<in> set [1, 1 / 2]"
    by simp
  have h5: "\<not> (fst (error_voltages ?e) < 1 / 2 \<and> 1 / 2 < snd (error_voltages ?e))"
    by (simp add: fresh_def)
  have h6: "error_voltages ?e = (7 / 10, 12 / 10)"
    by (simp add: fresh_def)
  from run_loop_stops_on_divergence [OF h1 h2 h3 h4 h5, of "[9]"] h1 h2 h3 h6
  show ?thesis by blast
qed

subsection \<open>The settings text\<close>

lemma py_max_Max: "xs \<noteq> [] \<Longrightarrow> py_max xs = Inr (Max (set xs))"
  by (cases xs) (simp_all add: Max.set_eq_fold [symmetric])

lemma foldl_rows:
  "foldl (\<lambda>text (setting, v). text @ row setting v) acc items
     = acc @ concat (map (\<lambda>(setting, v). row setting v) items)"
  by (induction items arbitrary: acc) (simp_all add: split_beta)

lemma get_settings_str_rows:
  assumes "settings e \<noteq> []"
  shows "get_settings_str fmt e
     = Inr (''# Simulation settings\<newline>\<newline>''
            @ concat (map (settings_row (widest_name e + 1) (widest_value fmt e + 1) fmt)
                (settings e)))"
proof -
  have a: "py_max (map (\<lambda>(s, v). length s) (settings e)) = Inr (widest_name e)"
    using assms by (simp add: py_max_Max widest_name_def)
  have b: "py_max (map (\<lambda>(s, v). length (val2str fmt v)) (settings e)) = Inr (widest_value fmt e)"
    using assms by (simp add: py_max_Max widest_value_def)
  have c: "settings_row n w fmt = (\<lambda>(setting, v). (\<lambda>setting v. ''$'' @ ljust n setting
            @ ljust w (val2str fmt v) @ '';'' @ ''\<newline>'') setting v)" for n w
    by (simp add: settings_row_def)
  show ?thesis
    unfolding get_settings_str_def a b Let_def sum.case c
    by (simp only: foldl_rows [where row = "\<lambda>setting v. ''$'' @ ljust (widest_name e + 1) setting
            @ ljust (widest_value fmt e + 1) (val2str fmt v) @ '';'' @ ''\<newline>''"])
qed

lemma get_settings_str_empty:
  "settings e = [] \<Longrightarrow> get_settings_str fmt e = Inl (ValueError ''max() arg is an empty sequence'')"
  by (simp add: get_settings_str_def)

lemma length_ljust: "length (ljust w s) = max w (length s)"
  by (simp add: ljust_def)

lemma name_le_widest: "(n, v) \<in> set (settings e) \<Longrightarrow> length n \<le> widest_name e"
  unfolding widest_name_def by (rule Max_ge) (auto intro!: image_eqI [where x = "(n, v)"])

lemma value_le_widest:
  "(n, v) \<in> set (settings e) \<Longrightarrow> length (val2str fmt v) \<le> widest_value fmt e"
  unfolding widest_value_def by (rule Max_ge) (auto intro!: image_eqI [where x = "(n, v)"])

lemma widest_name_attained:
  "settings e \<noteq> [] \<Longrightarrow> \<exists>(n, v) \<in> set (settings e). length n = widest_name e"
proof -
  assume "settings e \<noteq> []"
  then have "Max (set (map (\<lambda>(s, v). length s) (settings e)))
               \<in> set (map (\<lambda>(s, v). length s) (settings e))"
    by (intro Max_in) simp_all
  then show ?thesis
    by (fastforce simp: widest_name_def)
qed

lemma widest_value_attained:
  "settings e \<noteq> [] \<Longrightarrow> \<exists>(n, v) \<in> set (settings e). length (val2str fmt v) = widest_value fmt e"
proof -
  assume "settings e \<noteq> []"
  then have "Max (set (map (\<lambda>(s, v). length (val2str fmt v)) (settings e)))
               \<in> set (map (\<lambda>(s, v). length (val2str fmt v)) (settings e))"
    by (intro Max_in) simp_all
  then show ?thesis
    by (fastforce simp: widest_value_def)
qed

lemma length_settings_row:
  "(n, v) \<in> set (settings e) \<Longrightarrow>
   length (settings_row (widest_name e + 1) (widest_value fmt e + 1) fmt (n, v))
     = widest_name e + widest_value fmt e + 5"
  using name_le_widest [of n v e] value_le_widest [of n v e fmt]
  by (simp add: settings_row_def length_ljust)


lemma settings_update_invariant:
  assumes "k \<in> set setting_names"
      and "al \<noteq> [] \<and> distinct (map fst al) \<and> fst ` set al \<subseteq> set setting_names"
  shows "AList.update k v al \<noteq> [] \<and> distinct (map fst (AList.update k v al))
         \<and> fst ` set (AList.update k v al) \<subseteq> set setting_names"
proof -
  have "AList.update k v al \<noteq> []"
    by (metis assms(2) dom_update empty_set image_is_empty insert_not_empty Un_insert_left)
  then show ?thesis
    using assms by (simp add: distinct_update dom_update)
qed

lemma settings_set_RAMSES_settings_invariant:
  "settings e \<noteq> [] \<and> distinct (map fst (settings e)) \<and> fst ` set (settings e) \<subseteq> set setting_names
   \<Longrightarrow> settings (snd (set_RAMSES_settings items e)) \<noteq> []
       \<and> distinct (map fst (settings (snd (set_RAMSES_settings items e))))
       \<and> fst ` set (settings (snd (set_RAMSES_settings items e))) \<subseteq> set setting_names"
proof (induction items e rule: set_RAMSES_settings.induct)
  case (1 e)
  then show ?case by simp
next
  case (2 setting v rest e)
  show ?case
  proof (cases "setting \<in> set setting_names")
    case True
    from settings_update_invariant [OF True "2.prems", of v]
    have "settings (e\<lparr>settings := AList.update setting v (settings e)\<rparr>) \<noteq> []
        \<and> distinct (map fst (settings (e\<lparr>settings := AList.update setting v (settings e)\<rparr>)))
        \<and> fst ` set (settings (e\<lparr>settings := AList.update setting v (settings e)\<rparr>))
            \<subseteq> set setting_names"
      by simp
    from "2.IH" [OF _ this] True show ?thesis by simp
  next
    case False
    with "2.prems" show ?thesis by simp
  qed
qed

lemma settings_set_solver_settings [simp]:
  "settings (snd (set_solver_settings items e)) = settings e"
  by (induction items e rule: set_solver_settings.induct) simp_all

lemma settings_add_observables [simp]:
  "settings (snd (add_observables args e)) = settings e"
  by (simp add: add_observables_state)

lemma settings_call_invariant:
  assumes "settings e \<noteq> [] \<and> distinct (map fst (settings e))
           \<and> fst ` set (settings e) \<subseteq> set setting_names"
  shows "settings (snd (call c e)) \<noteq> [] \<and> distinct (map fst (settings (snd (call c e))))
         \<and> fst ` set (settings (snd (call c e))) \<subseteq> set setting_names"
proof (cases c)
  case (Add_system descr sys)
  with assms show ?thesis by (cases sys) (simp_all add: add_system_def)
next
  case (Add_disturbances descr ds)
  with assms show ?thesis by (simp add: add_disturbances_def Let_def split: option.split)
next
  case (Add_controllers descr cs)
  with assms show ?thesis by (simp add: add_controllers_def Let_def split: option.split)
next
  case (Set_RAMSES_settings items)
  with settings_set_RAMSES_settings_invariant [OF assms] show ?thesis by simp
qed (use assms in \<open>simp_all add: describe_def add_randomization_def add_metrics_def
       add_visualization_def set_solver_and_horizon_def\<close>)

lemma settings_calls_invariant:
  "settings e \<noteq> [] \<and> distinct (map fst (settings e)) \<and> fst ` set (settings e) \<subseteq> set setting_names
   \<Longrightarrow> settings (calls cs e) \<noteq> [] \<and> distinct (map fst (settings (calls cs e)))
       \<and> fst ` set (settings (calls cs e)) \<subseteq> set setting_names"
proof (induction cs arbitrary: e)
  case Nil
  then show ?case by (simp add: calls_def)
next
  case (Cons c cs)
  have "calls (c # cs) e = calls cs (snd (call c e))"
    by (simp add: calls_def)
  with Cons.IH [OF settings_call_invariant [OF Cons.prems]] show ?case
    by simp
qed

lemma settings_fresh_invariant:
  "settings (fresh nm dll reps doc) \<noteq> [] \<and> distinct (map fst (settings (fresh nm dll reps doc)))
   \<and> fst ` set (settings (fresh nm dll reps doc)) \<subseteq> set setting_names"
  by (simp add: fresh_def setting_names_def)


text \<open>
  Claim C3, as stated, fails: the text of a fresh experiment has 13 lines, one for
  every key of the settings map, and no line for the recognized names \<open>LATENCY\<close>,
  \<open>OMP\<close> and \<open>NET_FREQ_UPD\<close>, which the map does not hold.
\<close>

theorem get_settings_str_recognized_counterexample:
  "get_settings_str decimal_positional
      (fresh ''exp'' ''dll'' 1 False :: (unit, nat, nat, unit) Experiment)
     = Inr ''# Simulation settings\<newline>\<newline>$PLOT_STEP       0.001              ;\<newline>$GP_REFRESH_RATE 1.                 ;\<newline>$DISP_PROF       T                  ;\<newline>$T_LOAD_REST     0.005              ;\<newline>$OMEGA_REF       COI                ;\<newline>$S_BASE          100.               ;\<newline>$NEWTON_TOLER    0.001 0.001 0.0001 ;\<newline>$FIN_DIFFER      0.00001 0.00001    ;\<newline>$FULL_UPDATE     T                  ;\<newline>$SKIP_CONV       F                  ;\<newline>$SCHEME          DE                 ;\<newline>$NB_THREADS      2.                 ;\<newline>$SPARSE_SOLVER   KLU                ;\<newline>''
   \<and> ''LATENCY'' \<in> set setting_names
   \<and> ''LATENCY'' \<notin> fst ` set (settings (fresh ''exp'' ''dll'' 1 False :: (unit, nat, nat, unit) Experiment))
   \<and> length (settings (fresh ''exp'' ''dll'' 1 False :: (unit, nat, nat, unit) Experiment)) = 13
   \<and> length setting_names = 16"
proof -
  have "get_settings_str decimal_positional
      (fresh ''exp'' ''dll'' 1 False :: (unit, nat, nat, unit) Experiment)
     = Inr ''# Simulation settings\<newline>\<newline>$PLOT_STEP       0.001              ;\<newline>$GP_REFRESH_RATE 1.                 ;\<newline>$DISP_PROF       T                  ;\<newline>$T_LOAD_REST     0.005              ;\<newline>$OMEGA_REF       COI                ;\<newline>$S_BASE          100.               ;\<newline>$NEWTON_TOLER    0.001 0.001 0.0001 ;\<newline>$FIN_DIFFER      0.00001 0.00001    ;\<newline>$FULL_UPDATE     T                  ;\<newline>$SKIP_CONV       F                  ;\<newline>$SCHEME          DE                 ;\<newline>$NB_THREADS      2.                 ;\<newline>$SPARSE_SOLVER   KLU                ;\<newline>''"
    by code_simp
  then show ?thesis
    by (simp add: fresh_def setting_names_def)
qed

text \<open>
  Claim C3, amended. The settings text is the header \<open># Simulation settings\<close> and an
  empty line, followed by one line for every entry of the settings map, in the map's
  order: \<open>$\<close>, the name left-justified in a column one wider than the widest name of
  the map, the formatted value left-justified in a column one wider than the widest
  formatted value of the map, \<open>;\<close> and a newline. Both widths are attained by an entry
  of the map, so all lines have the same length. In every experiment obtained from a
  fresh one by method calls, the map is not empty and its keys are distinct and
  recognized, so every key of the map has exactly one line.
\<close>

theorem get_settings_str_layout:
  fixes e :: "('s, 'd::linorder, 'o::linorder, 'c) Experiment"
  shows
  "(settings e \<noteq> [] \<longrightarrow>
      get_settings_str fmt e
        = Inr (''# Simulation settings\<newline>\<newline>''
               @ concat (map (settings_row (widest_name e + 1) (widest_value fmt e + 1) fmt)
                   (settings e)))
      \<and> (\<forall>(n, v) \<in> set (settings e).
            length n \<le> widest_name e \<and> length (val2str fmt v) \<le> widest_value fmt e
            \<and> length (settings_row (widest_name e + 1) (widest_value fmt e + 1) fmt (n, v))
                = widest_name e + widest_value fmt e + 5)
      \<and> (\<exists>(n, v) \<in> set (settings e). length n = widest_name e)
      \<and> (\<exists>(n, v) \<in> set (settings e). length (val2str fmt v) = widest_value fmt e))
   \<and> (e = calls cs (fresh nm dll reps doc) \<longrightarrow>
      settings e \<noteq> [] \<and> distinct (map fst (settings e))
      \<and> fst ` set (settings e) \<subseteq> set setting_names)"
proof (intro conjI impI)
  assume "settings e \<noteq> []"
  then show "get_settings_str fmt e
        = Inr (''# Simulation settings\<newline>\<newline>''
               @ concat (map (settings_row (widest_name e + 1) (widest_value fmt e + 1) fmt)
                   (settings e)))"
    by (rule get_settings_str_rows)
next
  show "\<forall>(n, v) \<in> set (settings e).
            length n \<le> widest_name e \<and> length (val2str fmt v) \<le> widest_value fmt e
            \<and> length (settings_row (widest_name e + 1) (widest_value fmt e + 1) fmt (n, v))
                = widest_name e + widest_value fmt e + 5"
    using name_le_widest value_le_widest length_settings_row by blast
next
  assume "settings e \<noteq> []"
  then show "\<exists>(n, v) \<in> set (settings e). length n = widest_name e"
    by (rule widest_name_attained)
next
  assume "settings e \<noteq> []"
  then show "\<exists>(n, v) \<in> set (settings e). length (val2str fmt v) = widest_value fmt e"
    by (rule widest_value_attained)
next
  assume e: "e = calls cs (fresh nm dll reps doc)"
  note inv = settings_calls_invariant [OF settings_fresh_invariant, of cs nm dll reps doc, folded e]
  from inv show "settings e \<noteq> []" by blast
  from inv show "distinct (map fst (settings e))" by blast
  from inv show "fst ` set (settings e) \<subseteq> set setting_names" by blast
qed


theorem get_settings_str_layout_witness:
  "settings (fresh ''exp'' ''dll'' 1 False :: (unit, nat, nat, unit) Experiment) \<noteq> []
   \<and> widest_name (fresh ''exp'' ''dll'' 1 False :: (unit, nat, nat, unit) Experiment) = 15
   \<and> widest_value decimal_positional
        (fresh ''exp'' ''dll'' 1 False :: (unit, nat, nat, unit) Experiment) = 18
   \<and> get_settings_str decimal_positional
        (fresh ''exp'' ''dll'' 1 False :: (unit, nat, nat, unit) Experiment)
       = Inr (''# Simulation settings\<newline>\<newline>''
              @ concat (map (settings_row 16 19 decimal_positional)
                  (settings (fresh ''exp'' ''dll'' 1 False :: (unit, nat, nat, unit) Experiment))))
   \<and> fresh ''exp'' ''dll'' 1 False = calls [] (fresh ''exp'' ''dll'' 1 False :: (unit, nat, nat, unit) Experiment)
   \<and> distinct (map fst (settings (fresh ''exp'' ''dll'' 1 False :: (unit, nat, nat, unit) Experiment)))"
proof -
  let ?e = "fresh ''exp'' ''dll'' 1 False :: (unit, nat, nat, unit) Experiment"
  note th = get_settings_str_layout [where e = ?e and fmt = decimal_positional and cs = "[]"
      and nm = "''exp''" and dll = "''dll''" and reps = 1 and doc = False]
  have h1: "settings ?e \<noteq> []"
    by (simp add: fresh_def)
  have h2: "?e = calls [] ?e"
    by (simp add: calls_def)
  have wn: "widest_name ?e = 15"
    by (simp add: widest_name_def fresh_def)
  have wv: "widest_value decimal_positional ?e = 18"
    by code_simp
  from mp [OF conjunct1 [OF th] h1]
  have "get_settings_str decimal_positional ?e
       = Inr (''# Simulation settings\<newline>\<newline>''
              @ concat (map (settings_row 16 19 decimal_positional) (settings ?e)))"
    by (simp add: wn wv)
  moreover from mp [OF conjunct2 [OF th] h2] have "distinct (map fst (settings ?e))"
    by blast
  ultimately show ?thesis
    using h1 h2 wn wv by blast
qed

lemma exponent_free_append [simp]:
  "exponent_free (xs @ ys) \<longleftrightarrow> exponent_free xs \<and> exponent_free ys"
  by (auto simp: exponent_free_def)

lemma exponent_free_join:
  "\<forall>p \<in> set parts. exponent_free p \<Longrightarrow> exponent_free (join '' '' parts)"
  by (induction "'' ''" parts rule: join.induct) (simp_all add: exponent_free_def)

lemma exponent_free_ljust [simp]: "exponent_free (ljust w s) \<longleftrightarrow> exponent_free s"
  by (auto simp: exponent_free_def ljust_def)

lemma val2str_numeric:
  "is_numeric v \<Longrightarrow> val2str fmt v = join '' '' (map fmt (numbers_of v))"
  by (cases v) simp_all

text \<open>
  Claim C4. A numeric value of the settings map, scalar or tuple, is always rendered by
  \<open>format_float_positional\<close>: a scalar as its rendering, a tuple as the renderings of
  its components separated by single spaces. So its column in the settings text has no
  exponent marker whenever the renderings of its numbers have none, which is what
  NumPy's positional format provides.
\<close>

theorem numeric_settings_positional:
  assumes "(n, v) \<in> set (settings e)"
      and "is_numeric v"
      and "\<forall>x \<in> set (numbers_of v). exponent_free (fmt x)"
  shows "(\<forall>x. v = Num x \<longrightarrow> val2str fmt v = fmt x)
       \<and> (\<forall>xs. v = Tup xs \<longrightarrow> val2str fmt v = join '' '' (map fmt xs))
       \<and> exponent_free (ljust (widest_value fmt e + 1) (val2str fmt v))
       \<and> get_settings_str fmt e
           = Inr (''# Simulation settings\<newline>\<newline>''
                  @ concat (map (settings_row (widest_name e + 1) (widest_value fmt e + 1) fmt)
                      (settings e)))
       \<and> settings_row (widest_name e + 1) (widest_value fmt e + 1) fmt (n, v)
           = ''$'' @ ljust (widest_name e + 1) n
             @ ljust (widest_value fmt e + 1) (val2str fmt v) @ '';\<newline>''"
proof -
  have "exponent_free (val2str fmt v)"
    using assms(2,3) by (simp add: val2str_numeric exponent_free_join)
  moreover have "settings e \<noteq> []"
    using assms(1) by auto
  ultimately show ?thesis
    by (simp add: get_settings_str_rows settings_row_def)
qed

theorem numeric_settings_positional_witness:
  "(''NEWTON_TOLER'', Tup [1 / 1000, 1 / 1000, 1 / 10000])
      \<in> set (settings (fresh ''exp'' ''dll'' 1 False :: (unit, nat, nat, unit) Experiment))
   \<and> is_numeric (Tup [1 / 1000, 1 / 1000, 1 / 10000])
   \<and> numbers_of (Tup [1 / 1000, 1 / 1000, 1 / 10000]) = [1 / 1000, 1 / 1000, 1 / 10000]
   \<and> exponent_free (decimal_positional (1 / 1000))
   \<and> exponent_free (decimal_positional (1 / 10000))
   \<and> val2str decimal_positional (Tup [1 / 1000, 1 / 1000, 1 / 10000]) = ''0.001 0.001 0.0001''
   \<and> exponent_free (ljust
        (widest_value decimal_positional
           (fresh ''exp'' ''dll'' 1 False :: (unit, nat, nat, unit) Experiment) + 1)
        (val2str decimal_positional (Tup [1 / 1000, 1 / 1000, 1 / 10000])))"
proof -
  let ?e = "fresh ''exp'' ''dll'' 1 False :: (unit, nat, nat, unit) Experiment"
  let ?v = "Tup [1 / 1000, 1 / 1000, 1 / 10000]"
  have d1: "decimal_positional (1 / 1000) = ''0.001''"
    by code_simp
  have d2: "decimal_positional (1 / 10000) = ''0.0001''"
    by code_simp
  have h1: "(''NEWTON_TOLER'', ?v) \<in> set (settings ?e)"
    by (simp add: fresh_def)
  have h2: "is_numeric ?v"
    by simp
  have h3: "\<forall>x \<in> set (numbers_of ?v). exponent_free (decimal_positional x)"
    by (simp add: d1 d2 exponent_free_def)
  have v: "val2str decimal_positional ?v = ''0.001 0.001 0.0001''"
    by (simp add: d1 d2)
  have h4: "exponent_free (decimal_positional (1 / 1000))"
    and h5: "exponent_free (decimal_positional (1 / 10000))"
    by (simp_all add: d1 d2 exponent_free_def)
  have h6: "numbers_of ?v = [1 / 1000, 1 / 1000, 1 / 10000]"
    by simp
  from numeric_settings_positional [OF h1 h2 h3] h1 h2 h4 h5 h6 v
  show ?thesis by blast
qed

end
